theory Spec2Isabelle
  imports Main
begin

section \<open>kubectl-evict: data model\<close>

text \<open>
  A shallow embedding of \<^verbatim>\<open>pkg/cmd/evict.go\<close> and \<^verbatim>\<open>pkg/cmd/evict_api.go\<close>.
  The Go code talks to a Kubernetes cluster through client-go; every such call is an effect.
  The model records each call in a trace (\<open>calls\<close>) and takes the answer from a
  \<open>cluster\<close> value, whose answers may depend on the calls made so far.
\<close>

text \<open>A Go \<^verbatim>\<open>error\<close> value, identified by its message.\<close>

datatype error = Error string

fun Error_msg :: "error \<Rightarrow> string" where
  "Error_msg (Error m) = m"

text \<open>A Go function either returns or panics (index out of range, failed type assertion).\<close>

datatype 'a go = Return 'a | Panic string

text \<open>
  \<^verbatim>\<open>context.Context\<close>: the two empty contexts of the standard library, which are never
  cancelled, and a cancellable context with its current state.
\<close>

datatype Context = Background | TODO | WithCancel (cancelled: bool)

text \<open>
  \<^verbatim>\<open>map[string]string\<close>: \<open>None\<close> is the nil map, \<open>Some kvs\<close> a map with the entries
  \<open>kvs\<close> (distinct keys).
\<close>

type_synonym gomap = "(string \<times> string) list option"

fun len_map :: "gomap \<Rightarrow> nat" where
  "len_map None = 0"
| "len_map (Some kvs) = length kvs"

record ObjectMeta =
  Name :: string
  Namespace :: string

text \<open>Of a \<^verbatim>\<open>corev1.Pod\<close> the program reads the name and the namespace only.\<close>

type_synonym Pod = ObjectMeta

record LabelSelectorRequirement =
  Key :: string
  Operator :: string
  Values :: "string list"

record LabelSelector =
  MatchLabels :: gomap
  MatchExpressions :: "LabelSelectorRequirement list"

text \<open>
  \<^verbatim>\<open>runtime.Object\<close>, as far as the type switches of the program tell the kinds apart.
  Each controller kind carries its metadata and \<^verbatim>\<open>Spec.Selector\<close>; \<open>OtherObject\<close> is any
  other type, with the name that \<^verbatim>\<open>%T\<close> prints for it; \<open>NilObject\<close> is the nil interface.
\<close>

datatype object =
    PodList "Pod list"
  | PodObject Pod
  | ReplicaSet ObjectMeta "LabelSelector option"
  | ReplicationController ObjectMeta gomap
  | StatefulSet ObjectMeta "LabelSelector option"
  | DaemonSet ObjectMeta "LabelSelector option"
  | Deployment ObjectMeta "LabelSelector option"
  | Job ObjectMeta "LabelSelector option"
  | Service ObjectMeta gomap
  | Node ObjectMeta
  | OtherObject string
  | NilObject

text \<open>What \<^verbatim>\<open>%T\<close> prints: the package name (not the import alias) and the type.\<close>

fun typeName :: "object \<Rightarrow> string" where
  "typeName (PodList _) = ''*v1.PodList''"
| "typeName (PodObject _) = ''*v1.Pod''"
| "typeName (ReplicaSet _ _) = ''*v1.ReplicaSet''"
| "typeName (ReplicationController _ _) = ''*v1.ReplicationController''"
| "typeName (StatefulSet _ _) = ''*v1.StatefulSet''"
| "typeName (DaemonSet _ _) = ''*v1.DaemonSet''"
| "typeName (Deployment _ _) = ''*v1.Deployment''"
| "typeName (Job _ _) = ''*v1.Job''"
| "typeName (Service _ _) = ''*v1.Service''"
| "typeName (Node _) = ''*v1.Node''"
| "typeName (OtherObject n) = n"
| "typeName NilObject = ''<nil>''"

record DeleteOptions =
  GracePeriodSeconds :: "int option"
  DryRun :: "string list"

record ListOptions =
  LabelSelector :: string
  FieldSelector :: string

text \<open>\<^verbatim>\<open>policyv1.Eviction\<close> and \<^verbatim>\<open>policyv1beta1.Eviction\<close> have the same two fields.\<close>

record Eviction =
  ObjectMeta :: ObjectMeta
  DeleteOptions :: "DeleteOptions option"

record GroupVersion =
  Group :: string
  Version :: string

text \<open>\<^verbatim>\<open>metav1.APIResource\<close>; the fields are prefixed, since a record field is a constant.\<close>

record APIResource =
  res_Name :: string
  res_Kind :: string
  res_Group :: string
  res_Version :: string

text \<open>\<^verbatim>\<open>resource.Builder\<close>, as far as \<open>Complete\<close> configures it.\<close>

record Builder =
  NamespaceParam :: string
  ResourceNames :: "(string \<times> string) option"
  ResourceTypes :: "string option"
  LabelSelectorParam :: "string option"

subsection \<open>Effects\<close>

text \<open>The calls that reach the cluster, with their arguments.\<close>

datatype call =
    BuilderDo Builder
  | PodsList Context string ListOptions
  | ServerResourcesForGroupVersion string
  | EvictV1 Context string Eviction
  | EvictV1beta1 Context string Eviction

text \<open>
  The collaborators outside the repository: the kubeconfig loader, the construction of the
  client set, and the cluster's answers. An answer is a function of the calls made before it
  and of the call's arguments.
\<close>

record cluster =
  ConfigNamespace :: "error + (string \<times> bool)"
  ToRESTConfig :: "error option"
  NewForConfig :: "error option"
  Infos :: "call list \<Rightarrow> Builder \<Rightarrow> error + object list"
  List_resp :: "call list \<Rightarrow> Context \<Rightarrow> string \<Rightarrow> ListOptions \<Rightarrow> error + Pod list"
  Discovery_resp :: "call list \<Rightarrow> string \<Rightarrow> error + APIResource list"
  EvictV1_resp :: "call list \<Rightarrow> Context \<Rightarrow> string \<Rightarrow> Eviction \<Rightarrow> error option"
  EvictV1beta1_resp :: "call list \<Rightarrow> Context \<Rightarrow> string \<Rightarrow> Eviction \<Rightarrow> error option"

text \<open>
  The functions of \<^verbatim>\<open>k8s.io/apimachinery\<close> that the program calls. \<open>'ls\<close> is a non-nil
  \<^verbatim>\<open>labels.Selector\<close>, \<open>'fs\<close> a non-nil \<^verbatim>\<open>fields.Selector\<close>; the theorems hold for every
  behaviour of these functions.
\<close>

record ('ls, 'fs) apimachinery =
  LabelSelectorAsSelector :: "LabelSelector option \<Rightarrow> error + 'ls"
  labels_SelectorFromSet :: "gomap \<Rightarrow> 'ls"
  labels_String :: "'ls \<Rightarrow> string"
  fields_SelectorFromSet :: "(string \<times> string) list \<Rightarrow> 'fs"
  fields_String :: "'fs \<Rightarrow> string"

text \<open>The state the program changes: the calls made so far and the lines written to \<open>Out\<close>.\<close>

record world =
  calls :: "call list"
  out :: "string list"

section \<open>evict\_api.go\<close>

definition EvictionSubresource :: string where
  "EvictionSubresource = ''pods/eviction''"

definition EvictionKind :: string where
  "EvictionKind = ''Eviction''"

text \<open>\<^verbatim>\<open>policyv1.SchemeGroupVersion\<close>, a constant of \<^verbatim>\<open>k8s.io/api/policy/v1\<close>.\<close>

definition policyv1_SchemeGroupVersion :: GroupVersion where
  "policyv1_SchemeGroupVersion = \<lparr>Group = ''policy'', Version = ''v1''\<rparr>"

datatype Client = ClientV1 | ClientV1beta1

text \<open>The loop of \<open>evictGroupVersion\<close> over \<^verbatim>\<open>resourceList.APIResources\<close>.\<close>

fun scanAPIResources :: "APIResource list \<Rightarrow> GroupVersion" where
  "scanAPIResources [] = \<lparr>Group = [], Version = []\<rparr>"
| "scanAPIResources (r # rs) =
     (if res_Name r = EvictionSubresource \<and> res_Kind r = EvictionKind
         \<and> length (res_Group r) > 0 \<and> length (res_Version r) > 0
      then \<lparr>Group = res_Group r, Version = res_Version r\<rparr>
      else scanAPIResources rs)"

definition evictGroupVersion :: "cluster \<Rightarrow> world \<Rightarrow> GroupVersion \<times> world" where
  "evictGroupVersion clientset w =
     (let w' = w\<lparr>calls := calls w @ [ServerResourcesForGroupVersion ''v1'']\<rparr>
      in case Discovery_resp clientset (calls w) ''v1'' of
           Inl err \<Rightarrow> (\<lparr>Group = [], Version = []\<rparr>, w')
         | Inr resourceList \<Rightarrow> (scanAPIResources resourceList, w'))"

definition NewEvictClient :: "cluster \<Rightarrow> world \<Rightarrow> Client \<times> world" where
  "NewEvictClient clientset w =
     (case evictGroupVersion clientset w of
        (gv, w') \<Rightarrow>
          if gv = policyv1_SchemeGroupVersion then (ClientV1, w') else (ClientV1beta1, w'))"

text \<open>
  The two \<open>EvictPod\<close> methods, as \<^verbatim>\<open>evict_api.go\<close> declares them: they take the context and
  the pod, build an eviction with the pod's name and namespace and nothing else, and call the
  cluster under \<^verbatim>\<open>context.TODO()\<close>.
\<close>

definition ClientV1_EvictPod :: "cluster \<Rightarrow> Context \<Rightarrow> Pod \<Rightarrow> world \<Rightarrow> error option \<times> world" where
  "ClientV1_EvictPod c ctx pod w =
     (let eviction = \<lparr>ObjectMeta = \<lparr>Name = Name pod, Namespace = Namespace pod\<rparr>,
                      DeleteOptions = None\<rparr>;
          ns = Namespace (ObjectMeta eviction)
      in (EvictV1_resp c (calls w) TODO ns eviction,
          w\<lparr>calls := calls w @ [EvictV1 TODO ns eviction]\<rparr>))"

definition ClientV1beta1_EvictPod :: "cluster \<Rightarrow> Context \<Rightarrow> Pod \<Rightarrow> world \<Rightarrow> error option \<times> world" where
  "ClientV1beta1_EvictPod c ctx pod w =
     (let eviction = \<lparr>ObjectMeta = \<lparr>Name = Name pod, Namespace = Namespace pod\<rparr>,
                      DeleteOptions = None\<rparr>;
          ns = Namespace (ObjectMeta eviction)
      in (EvictV1beta1_resp c (calls w) TODO ns eviction,
          w\<lparr>calls := calls w @ [EvictV1beta1 TODO ns eviction]\<rparr>))"

text \<open>
  The \<open>Client\<close> interface: \<^verbatim>\<open>EvictPod(ctx context.Context, pod corev1.Pod) error\<close>,
  dispatched on the client that \<open>NewEvictClient\<close> returned.
\<close>

fun EvictPod :: "Client \<Rightarrow> cluster \<Rightarrow> Context \<Rightarrow> Pod \<Rightarrow> world \<Rightarrow> error option \<times> world" where
  "EvictPod ClientV1 c ctx pod w = ClientV1_EvictPod c ctx pod w"
| "EvictPod ClientV1beta1 c ctx pod w = ClientV1beta1_EvictPod c ctx pod w"

section \<open>evict.go\<close>

text \<open>
  The fields the program reads. The two flags are prefixed, since \<open>DeleteOptions\<close> has
  fields of the same names; the grace period is an \<^verbatim>\<open>int64\<close> that is only compared with 0
  and copied.
\<close>

record EvictOptions =
  o_GracePeriodSeconds :: int
  o_DryRun :: bool
  ResourceArg :: string
  Selector :: string
  Object :: object

definition evictUsageStr :: string where
  "evictUsageStr = ''evict (POD | TYPE/NAME)''"

definition evictUsageErrStr :: string where
  "evictUsageErrStr =
     ''expected '' @ [CHR 0x27] @ evictUsageStr @ [CHR 0x27] @ ''.'' @ [CHR 0x0A]
     @ ''POD or TYPE/NAME is a required argument for the evict command''"

subsection \<open>selectorsForObject and podsForObject\<close>

text \<open>
  The result is the error, or the namespace with the two selectors, each of which is nil
  (\<open>None\<close>) or set.
\<close>

fun selectorsForObject ::
  "('ls, 'fs) apimachinery \<Rightarrow> object \<Rightarrow> error + (string \<times> 'ls option \<times> 'fs option)" where
  "selectorsForObject k (ReplicaSet t sel) =
     (case LabelSelectorAsSelector k sel of
        Inl err \<Rightarrow> Inl (Error (''invalid label selector: '' @ Error_msg err))
      | Inr labelsel \<Rightarrow> Inr (Namespace t, Some labelsel, None))"
| "selectorsForObject k (ReplicationController t sel) =
     Inr (Namespace t, Some (labels_SelectorFromSet k sel), None)"
| "selectorsForObject k (StatefulSet t sel) =
     (case LabelSelectorAsSelector k sel of
        Inl err \<Rightarrow> Inl (Error (''invalid label selector: '' @ Error_msg err))
      | Inr labelsel \<Rightarrow> Inr (Namespace t, Some labelsel, None))"
| "selectorsForObject k (DaemonSet t sel) =
     (case LabelSelectorAsSelector k sel of
        Inl err \<Rightarrow> Inl (Error (''invalid label selector: '' @ Error_msg err))
      | Inr labelsel \<Rightarrow> Inr (Namespace t, Some labelsel, None))"
| "selectorsForObject k (Deployment t sel) =
     (case LabelSelectorAsSelector k sel of
        Inl err \<Rightarrow> Inl (Error (''invalid label selector: '' @ Error_msg err))
      | Inr labelsel \<Rightarrow> Inr (Namespace t, Some labelsel, None))"
| "selectorsForObject k (Job t sel) =
     (case LabelSelectorAsSelector k sel of
        Inl err \<Rightarrow> Inl (Error (''invalid label selector: '' @ Error_msg err))
      | Inr labelsel \<Rightarrow> Inr (Namespace t, Some labelsel, None))"
| "selectorsForObject k (Service t sel) =
     (if sel = None \<or> len_map sel = 0
      then Inl (Error (''invalid service '' @ [CHR 0x27] @ Name t @ [CHR 0x27]
                       @ '': Service is defined without a selector''))
      else Inr (Namespace t, Some (labels_SelectorFromSet k sel), None))"
| "selectorsForObject k (Node t) =
     Inr ([], None, Some (fields_SelectorFromSet k [(''spec.nodeName'', Name t)]))"
| "selectorsForObject k object =
     Inl (Error (''selector for '' @ typeName object @ '' not implemented''))"

text \<open>The list options that \<open>podsForObject\<close> builds from the two selectors.\<close>

definition listOptionsFor :: "('ls, 'fs) apimachinery \<Rightarrow> 'ls option \<Rightarrow> 'fs option \<Rightarrow> ListOptions" where
  "listOptionsFor k labelsel fieldsel =
     (let opt = \<lparr>LabelSelector = [], FieldSelector = []\<rparr>;
          opt = (case labelsel of None \<Rightarrow> opt | Some l \<Rightarrow> opt\<lparr>LabelSelector := labels_String k l\<rparr>);
          opt = (case fieldsel of None \<Rightarrow> opt | Some f \<Rightarrow> opt\<lparr>FieldSelector := fields_String k f\<rparr>)
      in opt)"

fun podsForObject ::
  "('ls, 'fs) apimachinery \<Rightarrow> cluster \<Rightarrow> Context \<Rightarrow> object \<Rightarrow> world \<Rightarrow> (error + Pod list) \<times> world" where
  "podsForObject k api ctx (PodList items) w = (Inr items, w)"
| "podsForObject k api ctx (PodObject t) w = (Inr [t], w)"
| "podsForObject k api ctx object w =
     (case selectorsForObject k object of
        Inl err \<Rightarrow>
          (Inl (Error (''cannot get the logs from '' @ typeName object @ '': '' @ Error_msg err)), w)
      | Inr (namespace, labelsel, fieldsel) \<Rightarrow>
          (let opt = listOptionsFor k labelsel fieldsel
           in (List_resp api (calls w) ctx namespace opt,
               w\<lparr>calls := calls w @ [PodsList ctx namespace opt]\<rparr>)))"

subsection \<open>RunEvict\<close>

text \<open>The delete options and the verb that \<open>RunEvict\<close> computes from the flags.\<close>

definition RunEvict_opts :: "EvictOptions \<Rightarrow> DeleteOptions" where
  "RunEvict_opts eo =
     (let opts = \<lparr>GracePeriodSeconds = None, DryRun = []\<rparr>;
          opts = (if o_GracePeriodSeconds eo \<ge> 0
                  then opts\<lparr>GracePeriodSeconds := Some (o_GracePeriodSeconds eo)\<rparr> else opts);
          opts = (if o_DryRun eo then opts\<lparr>DryRun := [''All'']\<rparr> else opts)
      in opts)"

definition RunEvict_verb :: "EvictOptions \<Rightarrow> string" where
  "RunEvict_verb eo = (if o_DryRun eo then ''evicted (dry-run)'' else ''evicted'')"

text \<open>The line that \<^verbatim>\<open>fmt.Fprintf(o.Out, "pod %s/%s %s\n", ...)\<close> writes.\<close>

definition evictedLine :: "Pod \<Rightarrow> string \<Rightarrow> string" where
  "evictedLine pod verb = ''pod '' @ Namespace pod @ ''/'' @ Name pod @ '' '' @ verb @ [CHR 0x0A]"

text \<open>
  The loop over the pods: the first error is returned, the pods after it are not visited.
  The call in the loop is written \<^verbatim>\<open>eviction.EvictPod(ctx, pod, opts)\<close>, while the interface
  and both methods of \<^verbatim>\<open>evict_api.go\<close> declare the two parameters \<open>ctx\<close> and \<open>pod\<close>. The
  model calls the methods as they are declared, with the context and the pod; what becomes
  of \<open>opts\<close> is not decided by the source, and nothing below depends on it.
\<close>

fun evictLoop ::
  "Client \<Rightarrow> cluster \<Rightarrow> Context \<Rightarrow> string \<Rightarrow> Pod list \<Rightarrow> world \<Rightarrow> error option \<times> world" where
  "evictLoop eviction c ctx verb [] w = (None, w)"
| "evictLoop eviction c ctx verb (pod # pods) w =
     (case EvictPod eviction c ctx pod w of
        (Some err, w') \<Rightarrow> (Some err, w')
      | (None, w') \<Rightarrow>
          evictLoop eviction c ctx verb pods (w'\<lparr>out := out w' @ [evictedLine pod verb]\<rparr>))"

definition RunEvict ::
  "('ls, 'fs) apimachinery \<Rightarrow> cluster \<Rightarrow> EvictOptions \<Rightarrow> Context \<Rightarrow> world \<Rightarrow> error option \<times> world" where
  "RunEvict k c eo ctx w =
     (case ToRESTConfig c of
        Some err \<Rightarrow> (Some err, w)
      | None \<Rightarrow>
     (case NewForConfig c of
        Some err \<Rightarrow> (Some err, w)
      | None \<Rightarrow>
     (case podsForObject k c ctx (Object eo) w of
        (Inl err, w1) \<Rightarrow> (Some err, w1)
      | (Inr pods, w1) \<Rightarrow>
          (let opts = RunEvict_opts eo;
               verb = RunEvict_verb eo
           in case NewEvictClient c w1 of
                (eviction, w2) \<Rightarrow> evictLoop eviction c ctx verb pods w2))))"

subsection \<open>Complete\<close>

text \<open>The switch on \<^verbatim>\<open>len(args)\<close>; \<open>ResourceArg\<close> is assigned before the selector is checked.\<close>

definition Complete_switch :: "EvictOptions \<Rightarrow> string list \<Rightarrow> error option \<times> EvictOptions" where
  "Complete_switch eo args =
     (case args of
        [] \<Rightarrow> if length (Selector eo) = 0 then (Some (Error evictUsageErrStr), eo) else (None, eo)
      | [a] \<Rightarrow>
          (let o1 = eo\<lparr>ResourceArg := a\<rparr>
           in if length (Selector o1) \<noteq> 0
              then (Some (Error ''only a selector (-l) or a resource name is allowed''), o1)
              else (None, o1))
      | _ \<Rightarrow> (Some (Error evictUsageErrStr), eo))"

text \<open>The builder that \<open>Complete\<close> configures.\<close>

definition Complete_builder :: "EvictOptions \<Rightarrow> string \<Rightarrow> Builder" where
  "Complete_builder eo namespace =
     (let b = \<lparr>NamespaceParam = namespace, ResourceNames = None, ResourceTypes = None,
               LabelSelectorParam = None\<rparr>;
          b = (if ResourceArg eo \<noteq> [] then b\<lparr>ResourceNames := Some (''pods'', ResourceArg eo)\<rparr> else b);
          b = (if Selector eo \<noteq> []
               then b\<lparr>ResourceTypes := Some ''pods'', LabelSelectorParam := Some (Selector eo)\<rparr> else b)
      in b)"

text \<open>
  The checks on the fetched object. \<^verbatim>\<open>o.Object.(*corev1.PodList)\<close> panics on any other
  type.
\<close>

definition Complete_checks :: "EvictOptions \<Rightarrow> string \<Rightarrow> bool \<Rightarrow> error option go" where
  "Complete_checks eo namespace namespaceOverwride =
     (let emptyList =
            (if Selector eo \<noteq> []
             then (case Object eo of
                     PodList items \<Rightarrow> Return (length items = 0)
                   | _ \<Rightarrow> Panic ''interface conversion: runtime.Object is not *v1.PodList'')
             else Return False)
      in case emptyList of
           Panic m \<Rightarrow> Panic m
         | Return True \<Rightarrow> Return (Some (Error (''no resources found in '' @ namespace @ '' namespace'')))
         | Return False \<Rightarrow>
             (case Object eo of
                Node t \<Rightarrow>
                  if namespaceOverwride
                  then Return (Some (Error ''--namespace should not be specified with node target''))
                  else Return None
              | _ \<Rightarrow> Return None))"

definition Complete ::
  "cluster \<Rightarrow> EvictOptions \<Rightarrow> string list \<Rightarrow> world \<Rightarrow> error option go \<times> EvictOptions \<times> world" where
  "Complete c eo args w =
     (case Complete_switch eo args of
        (Some err, o1) \<Rightarrow> (Return (Some err), o1, w)
      | (None, o1) \<Rightarrow>
     (case ConfigNamespace c of
        Inl err \<Rightarrow> (Return (Some err), o1, w)
      | Inr (namespace, namespaceOverwride) \<Rightarrow>
          (let b = Complete_builder o1 namespace;
               w1 = w\<lparr>calls := calls w @ [BuilderDo b]\<rparr>
           in case Infos c (calls w) b of
                Inl err \<Rightarrow> (Return (Some err), o1, w1)
              | Inr infos \<Rightarrow>
                  if Selector o1 = [] \<and> length infos \<noteq> 1
                  then (Return (Some (Error ''expected a resource'')), o1, w1)
                  else (case infos of
                          [] \<Rightarrow> (Panic ''index out of range [0] with length 0'', o1, w1)
                        | obj # _ \<Rightarrow>
                            (let o2 = o1\<lparr>Object := obj\<rparr>
                             in (Complete_checks o2 namespace namespaceOverwride, o2, w1))))))"

text \<open>The command's \<open>RunE\<close>: \<open>Complete\<close>, then \<open>RunEvict\<close> under the command's context.\<close>

definition RunE ::
  "('ls, 'fs) apimachinery \<Rightarrow> cluster \<Rightarrow> EvictOptions \<Rightarrow> string list \<Rightarrow> Context \<Rightarrow> world
   \<Rightarrow> error option go \<times> EvictOptions \<times> world" where
  "RunE k c eo args ctx w =
     (case Complete c eo args w of
        (Return None, o1, w1) \<Rightarrow>
          (case RunEvict k c o1 ctx w1 of (r, w2) \<Rightarrow> (Return r, o1, w2))
      | (r, o1, w1) \<Rightarrow> (r, o1, w1))"

text \<open>\<open>NewEvictOptions\<close> with the flags' values: every other field has its zero value.\<close>

definition NewEvictOptions :: "string \<Rightarrow> bool \<Rightarrow> int \<Rightarrow> EvictOptions" where
  "NewEvictOptions selector dryRun gracePeriod =
     \<lparr>o_GracePeriodSeconds = gracePeriod, o_DryRun = dryRun, ResourceArg = [],
      Selector = selector, Object = NilObject\<rparr>"

section \<open>Vocabulary of the properties\<close>

text \<open>The call that a client's \<open>EvictPod\<close> makes for a pod.\<close>

fun evictCall :: "Client \<Rightarrow> Pod \<Rightarrow> call" where
  "evictCall ClientV1 pod =
     EvictV1 TODO (Namespace pod)
       \<lparr>ObjectMeta = \<lparr>Name = Name pod, Namespace = Namespace pod\<rparr>, DeleteOptions = None\<rparr>"
| "evictCall ClientV1beta1 pod =
     EvictV1beta1 TODO (Namespace pod)
       \<lparr>ObjectMeta = \<lparr>Name = Name pod, Namespace = Namespace pod\<rparr>, DeleteOptions = None\<rparr>"

fun isDiscovery :: "call \<Rightarrow> bool" where
  "isDiscovery (ServerResourcesForGroupVersion _) = True"
| "isDiscovery _ = False"

fun isEvict :: "call \<Rightarrow> bool" where
  "isEvict (EvictV1 _ _ _) = True"
| "isEvict (EvictV1beta1 _ _ _) = True"
| "isEvict _ = False"

text \<open>The context that an eviction call carries.\<close>

fun evictContext :: "call \<Rightarrow> Context option" where
  "evictContext (EvictV1 ctx _ _) = Some ctx"
| "evictContext (EvictV1beta1 ctx _ _) = Some ctx"
| "evictContext _ = None"

text \<open>
  A discovery entry for the eviction subresource: named \<^verbatim>\<open>pods/eviction\<close>, of kind
  \<^verbatim>\<open>Eviction\<close>, with a group and a version.
\<close>

definition isEvictionEntry :: "APIResource \<Rightarrow> bool" where
  "isEvictionEntry r \<longleftrightarrow>
     res_Name r = ''pods/eviction'' \<and> res_Kind r = ''Eviction''
     \<and> res_Group r \<noteq> [] \<and> res_Version r \<noteq> []"

definition isStableEntry :: "APIResource \<Rightarrow> bool" where
  "isStableEntry r \<longleftrightarrow> isEvictionEntry r \<and> res_Group r = ''policy'' \<and> res_Version r = ''v1''"

text \<open>The discovery response contains a stable eviction entry, at any position.\<close>

definition advertisesStable :: "APIResource list \<Rightarrow> bool" where
  "advertisesStable rl = list_ex isStableEntry rl"

text \<open>The metadata of an object of one of the seven controller kinds.\<close>

fun controllerMeta :: "object \<Rightarrow> ObjectMeta option" where
  "controllerMeta (ReplicaSet t _) = Some t"
| "controllerMeta (ReplicationController t _) = Some t"
| "controllerMeta (StatefulSet t _) = Some t"
| "controllerMeta (DaemonSet t _) = Some t"
| "controllerMeta (Deployment t _) = Some t"
| "controllerMeta (Job t _) = Some t"
| "controllerMeta (Service t _) = Some t"
| "controllerMeta _ = None"

fun isNode :: "object \<Rightarrow> bool" where
  "isNode (Node _) = True"
| "isNode _ = False"

section \<open>Example data\<close>

text \<open>
  A sample of the library: a selector is represented by the string it prints, and a label
  selector with match expressions is taken as invalid.
\<close>

fun renderSet :: "(string \<times> string) list \<Rightarrow> string" where
  "renderSet [] = []"
| "renderSet [(k, v)] = k @ ''='' @ v"
| "renderSet ((k, v) # kvs) = k @ ''='' @ v @ '','' @ renderSet kvs"

definition sampleLib :: "(string, string) apimachinery" where
  "sampleLib =
     \<lparr>LabelSelectorAsSelector =
        (\<lambda>sel. case sel of
                 None \<Rightarrow> Inr []
               | Some s \<Rightarrow>
                   if MatchExpressions s = []
                   then Inr (renderSet (case MatchLabels s of None \<Rightarrow> [] | Some kvs \<Rightarrow> kvs))
                   else Inl (Error ''unsupported operator'')),
      labels_SelectorFromSet = (\<lambda>m. renderSet (case m of None \<Rightarrow> [] | Some kvs \<Rightarrow> kvs)),
      labels_String = (\<lambda>l. l),
      fields_SelectorFromSet = renderSet,
      fields_String = (\<lambda>f. f)\<rparr>"

definition stableEntry :: APIResource where
  "stableEntry =
     \<lparr>res_Name = ''pods/eviction'', res_Kind = ''Eviction'', res_Group = ''policy'',
      res_Version = ''v1''\<rparr>"

definition betaEntry :: APIResource where
  "betaEntry =
     \<lparr>res_Name = ''pods/eviction'', res_Kind = ''Eviction'', res_Group = ''policy'',
      res_Version = ''v1beta1''\<rparr>"

text \<open>
  A sample cluster: namespace \<^verbatim>\<open>default\<close>, no objects, the stable eviction API, every
  eviction accepted unless the call's context is cancelled.
\<close>

definition evictAnswer :: "Context \<Rightarrow> error option" where
  "evictAnswer ctx =
     (case ctx of WithCancel True \<Rightarrow> Some (Error ''context canceled'') | _ \<Rightarrow> None)"

definition sampleCluster :: cluster where
  "sampleCluster =
     \<lparr>ConfigNamespace = Inr (''default'', False),
      ToRESTConfig = None,
      NewForConfig = None,
      Infos = (\<lambda>h b. Inr []),
      List_resp = (\<lambda>h ctx ns opt. Inr []),
      Discovery_resp = (\<lambda>h gv. Inr [stableEntry]),
      EvictV1_resp = (\<lambda>h ctx ns e. evictAnswer ctx),
      EvictV1beta1_resp = (\<lambda>h ctx ns e. evictAnswer ctx)\<rparr>"

definition podNamed :: "string \<Rightarrow> Pod" where
  "podNamed n = \<lparr>Name = n, Namespace = ''default''\<rparr>"

definition world0 :: world where
  "world0 = \<lparr>calls = [], out = []\<rparr>"


text \<open>Three pods fetched by a label selector.\<close>

definition threePods :: EvictOptions where
  "threePods = (NewEvictOptions ''app=nginx'' False (-1))
     \<lparr>Object := PodList [podNamed ''a'', podNamed ''b'', podNamed ''c'']\<rparr>"

text \<open>A discovery response with two eviction entries, the deprecated one first.\<close>

definition twoEntryCluster :: cluster where
  "twoEntryCluster = sampleCluster\<lparr>Discovery_resp := (\<lambda>h gv. Inr [betaEntry, stableEntry])\<rparr>"

text \<open>A cluster that refuses to list pods.\<close>

definition forbiddenCluster :: cluster where
  "forbiddenCluster = sampleCluster\<lparr>List_resp := (\<lambda>h ctx ns opt. Inl (Error ''pods is forbidden''))\<rparr>"

text \<open>The options after \<^verbatim>\<open>kubectl evict node/worker-1\<close>.\<close>

definition nodeTarget :: EvictOptions where
  "nodeTarget = (NewEvictOptions [] False (-1))
     \<lparr>ResourceArg := ''node/worker-1'', Object := Node \<lparr>Name = ''worker-1'', Namespace = []\<rparr>\<rparr>"

text \<open>A deployment selecting \<^verbatim>\<open>app=nginx\<close>, and a service without a selector.\<close>

definition nginxDeployment :: object where
  "nginxDeployment =
     Deployment \<lparr>Name = ''nginx'', Namespace = ''web''\<rparr>
       (Some \<lparr>MatchLabels = Some [(''app'', ''nginx'')], MatchExpressions = []\<rparr>)"

definition headlessService :: object where
  "headlessService = Service \<lparr>Name = ''db'', Namespace = ''web''\<rparr> (Some [])"

text \<open>A cluster where the resource argument \<^verbatim>\<open>nginx\<close> names a pod.\<close>

definition nginxCluster :: cluster where
  "nginxCluster = sampleCluster\<lparr>Infos := (\<lambda>h b. Inr [PodObject (podNamed ''nginx'')])\<rparr>"

text \<open>A cluster where the label selector matches two pods.\<close>

definition twoPodCluster :: cluster where
  "twoPodCluster = sampleCluster\<lparr>Infos := (\<lambda>h b. Inr [PodList [podNamed ''a'', podNamed ''b'']])\<rparr>"

text \<open>
  A cluster, used with \<^verbatim>\<open>-n web\<close>, where the resource argument names the deployment and no
  pod matches its selector (the sample cluster lists no pods).
\<close>

definition deploymentCluster :: cluster where
  "deploymentCluster =
     sampleCluster\<lparr>ConfigNamespace := Inr (''web'', True), Infos := (\<lambda>h b. Inr [nginxDeployment])\<rparr>"

text \<open>A cluster where the label selector matches no pod.\<close>

definition noMatchCluster :: cluster where
  "noMatchCluster = sampleCluster\<lparr>Infos := (\<lambda>h b. Inr [PodList []])\<rparr>"

section \<open>The eviction loop\<close>

lemma EvictPod_calls:
  "calls (snd (EvictPod eviction c ctx pod w)) = calls w @ [evictCall eviction pod]"
  by (cases eviction) (simp_all add: ClientV1_EvictPod_def ClientV1beta1_EvictPod_def Let_def)




text \<open>Whatever the outcome, the calls of the loop are the eviction calls of a prefix of the pods.\<close>

lemma evictLoop_calls_prefix:
  "evictLoop eviction c ctx verb pods w = (r, w1) \<Longrightarrow>
   \<exists>n \<le> length pods. calls w1 = calls w @ map (evictCall eviction) (take n pods)"
proof (induction pods arbitrary: w)
  case Nil
  then show ?case by simp
next
  case (Cons p pods)
  obtain r' w' where step: "EvictPod eviction c ctx p w = (r', w')"
    by (cases "EvictPod eviction c ctx p w")
  then have w': "calls w' = calls w @ [evictCall eviction p]"
    using EvictPod_calls [of eviction c ctx p w] by simp
  show ?case
  proof (cases r')
    case None
    with Cons.prems step
    have "evictLoop eviction c ctx verb pods (w'\<lparr>out := out w' @ [evictedLine p verb]\<rparr>) = (r, w1)"
      by simp
    from Cons.IH [OF this] obtain n where
      n: "n \<le> length pods" "calls w1 = calls w' @ map (evictCall eviction) (take n pods)"
      by auto
    with w' have "Suc n \<le> length (p # pods)
       \<and> calls w1 = calls w @ map (evictCall eviction) (take (Suc n) (p # pods))"
      by simp
    then show ?thesis by blast
  next
    case (Some err)
    with Cons.prems step have "w1 = w'" by simp
    with w' have "Suc 0 \<le> length (p # pods)
       \<and> calls w1 = calls w @ map (evictCall eviction) (take (Suc 0) (p # pods))"
      by simp
    then show ?thesis by blast
  qed
qed

lemma NewEvictClient_world:
  "snd (NewEvictClient c w) = w\<lparr>calls := calls w @ [ServerResourcesForGroupVersion ''v1'']\<rparr>"
  by (simp add: NewEvictClient_def evictGroupVersion_def Let_def split: sum.splits)


lemma podsForObject_calls:
  "calls (snd (podsForObject k api ctx obj w)) = calls w
   \<or> (\<exists>ns opt. calls (snd (podsForObject k api ctx obj w)) = calls w @ [PodsList ctx ns opt])"
  by (cases obj) (simp_all add: Let_def split: sum.splits prod.splits)

section \<open>Sequential eviction\<close>



section \<open>Version negotiation\<close>

lemma scanAPIResources_find:
  "scanAPIResources rl =
     (case find isEvictionEntry rl of
        None \<Rightarrow> \<lparr>Group = [], Version = []\<rparr>
      | Some r \<Rightarrow> \<lparr>Group = res_Group r, Version = res_Version r\<rparr>)"
  by (induction rl) (simp_all add: isEvictionEntry_def EvictionSubresource_def EvictionKind_def)

lemma NewEvictClient_stable_iff:
  "fst (NewEvictClient c w) = ClientV1 \<longleftrightarrow>
     (\<exists>rl r. Discovery_resp c (calls w) ''v1'' = Inr rl \<and> find isEvictionEntry rl = Some r
        \<and> res_Group r = ''policy'' \<and> res_Version r = ''v1'')"
  by (auto simp: NewEvictClient_def evictGroupVersion_def Let_def scanAPIResources_find
      policyv1_SchemeGroupVersion_def split: sum.splits option.splits)

lemma evictCall_not_discovery: "\<not> isDiscovery (evictCall eviction p)"
  by (cases eviction) simp_all

lemma filter_discovery_evictCalls: "filter isDiscovery (map (evictCall eviction) ps) = []"
  by (induction ps) (simp_all add: evictCall_not_discovery)

lemma RunEvict_calls:
  assumes "ToRESTConfig c = None" "NewForConfig c = None"
      and "podsForObject k c ctx (Object eo) w = (Inr pods, w0)"
  shows "\<exists>n \<le> length pods.
           calls (snd (RunEvict k c eo ctx w))
           = calls w0 @ ServerResourcesForGroupVersion ''v1''
               # map (evictCall (fst (NewEvictClient c w0))) (take n pods)"
proof -
  obtain eviction wN where client: "NewEvictClient c w0 = (eviction, wN)"
    by (cases "NewEvictClient c w0")
  then have wN: "calls wN = calls w0 @ [ServerResourcesForGroupVersion ''v1'']"
    using NewEvictClient_world [of c w0] by simp
  obtain res w' where loop:
    "evictLoop eviction c ctx (RunEvict_verb eo) pods wN = (res, w')"
    by (cases "evictLoop eviction c ctx (RunEvict_verb eo) pods wN")
  from evictLoop_calls_prefix [OF loop] obtain n where
    n: "n \<le> length pods" "calls w' = calls wN @ map (evictCall eviction) (take n pods)"
    by auto
  from assms client loop have "RunEvict k c eo ctx w = (res, w')"
    by (simp add: RunEvict_def Let_def)
  with n wN client show ?thesis by auto
qed

lemma RunEvict_discovery_at_most_once:
  "length (filter isDiscovery (drop (length (calls w)) (calls (snd (RunEvict k c eo ctx w))))) \<le> 1"
proof (cases "ToRESTConfig c = None \<and> NewForConfig c = None")
  case False
  then show ?thesis by (auto simp: RunEvict_def split: option.splits)
next
  case True
  obtain res w0 where pods: "podsForObject k c ctx (Object eo) w = (res, w0)"
    by (cases "podsForObject k c ctx (Object eo) w")
  have w0: "calls w0 = calls w \<or> (\<exists>ns opt. calls w0 = calls w @ [PodsList ctx ns opt])"
    using podsForObject_calls [of k c ctx "Object eo" w] pods by simp
  show ?thesis
  proof (cases res)
    case (Inl err)
    with True pods have "snd (RunEvict k c eo ctx w) = w0"
      by (simp add: RunEvict_def)
    with w0 show ?thesis by auto
  next
    case (Inr ps)
    with True pods RunEvict_calls [of c k ctx eo w ps w0] obtain n where
      "calls (snd (RunEvict k c eo ctx w))
       = calls w0 @ ServerResourcesForGroupVersion ''v1''
           # map (evictCall (fst (NewEvictClient c w0))) (take n ps)"
      by auto
    with w0 show ?thesis by (auto simp: filter_discovery_evictCalls)
  qed
qed

lemma RunEvict_fails_before_discovery:
  assumes "ToRESTConfig c \<noteq> None \<or> NewForConfig c \<noteq> None
           \<or> (\<exists>err. fst (podsForObject k c ctx (Object eo) w) = Inl err)"
  shows "filter isDiscovery (drop (length (calls w)) (calls (snd (RunEvict k c eo ctx w)))) = []"
proof (cases "ToRESTConfig c = None \<and> NewForConfig c = None")
  case False
  then have "snd (RunEvict k c eo ctx w) = w"
    by (auto simp: RunEvict_def split: option.splits)
  then show ?thesis by simp
next
  case True
  with assms obtain err w0 where pods: "podsForObject k c ctx (Object eo) w = (Inl err, w0)"
    by (cases "podsForObject k c ctx (Object eo) w") auto
  have w0: "calls w0 = calls w \<or> (\<exists>ns opt. calls w0 = calls w @ [PodsList ctx ns opt])"
    using podsForObject_calls [of k c ctx "Object eo" w] pods by simp
  from True pods have "snd (RunEvict k c eo ctx w) = w0"
    by (simp add: RunEvict_def)
  with w0 show ?thesis by auto
qed

text \<open>
  C1, as amended. The stable client is selected if and only if discovery of the core group
  succeeds and the first entry named \<^verbatim>\<open>pods/eviction\<close> of kind \<^verbatim>\<open>Eviction\<close> with a
  non-empty group and version has the group \<^verbatim>\<open>policy\<close> and the version \<^verbatim>\<open>v1\<close>; in every
  other case the deprecated client is selected. A run makes at most one discovery call; a run
  whose pods have been resolved makes exactly one, after the resolution and before every
  eviction call, and each eviction call is made by the client selected then. A run that fails
  before, in the configuration of the client or in the resolution of the pods, makes none.
\<close>

theorem negotiation_first_match_once:
  "(fst (NewEvictClient c w) = ClientV1 \<longleftrightarrow>
      (\<exists>rl r. Discovery_resp c (calls w) ''v1'' = Inr rl \<and> find isEvictionEntry rl = Some r
         \<and> isStableEntry r))
   \<and> (fst (NewEvictClient c w) = ClientV1beta1 \<longleftrightarrow>
      \<not> (\<exists>rl r. Discovery_resp c (calls w) ''v1'' = Inr rl \<and> find isEvictionEntry rl = Some r
         \<and> isStableEntry r))
   \<and> length (filter isDiscovery (drop (length (calls w)) (calls (snd (RunEvict k c eo ctx w))))) \<le> 1
   \<and> (ToRESTConfig c = None \<and> NewForConfig c = None
        \<and> podsForObject k c ctx (Object eo) w = (Inr pods, w0) \<longrightarrow>
      (\<exists>n \<le> length pods.
         calls (snd (RunEvict k c eo ctx w))
         = calls w0 @ ServerResourcesForGroupVersion ''v1''
             # map (evictCall (fst (NewEvictClient c w0))) (take n pods)))
   \<and> (ToRESTConfig c \<noteq> None \<or> NewForConfig c \<noteq> None
        \<or> (\<exists>err. fst (podsForObject k c ctx (Object eo) w) = Inl err) \<longrightarrow>
      filter isDiscovery (drop (length (calls w)) (calls (snd (RunEvict k c eo ctx w)))) = [])"
proof -
  have stable: "fst (NewEvictClient c w) = ClientV1 \<longleftrightarrow>
      (\<exists>rl r. Discovery_resp c (calls w) ''v1'' = Inr rl \<and> find isEvictionEntry rl = Some r
         \<and> isStableEntry r)"
    unfolding NewEvictClient_stable_iff isStableEntry_def
    by (auto dest: find_Some_iff [THEN iffD1])
  have beta: "fst (NewEvictClient c w) = ClientV1beta1 \<longleftrightarrow> fst (NewEvictClient c w) \<noteq> ClientV1"
    by (cases "fst (NewEvictClient c w)") simp_all
  have once: "ToRESTConfig c = None \<and> NewForConfig c = None
        \<and> podsForObject k c ctx (Object eo) w = (Inr pods, w0) \<longrightarrow>
      (\<exists>n \<le> length pods.
         calls (snd (RunEvict k c eo ctx w))
         = calls w0 @ ServerResourcesForGroupVersion ''v1''
             # map (evictCall (fst (NewEvictClient c w0))) (take n pods))"
    using RunEvict_calls [of c k ctx eo w pods w0] by blast
  have none: "ToRESTConfig c \<noteq> None \<or> NewForConfig c \<noteq> None
        \<or> (\<exists>err. fst (podsForObject k c ctx (Object eo) w) = Inl err) \<longrightarrow>
      filter isDiscovery (drop (length (calls w)) (calls (snd (RunEvict k c eo ctx w)))) = []"
    using RunEvict_fails_before_discovery [of c k ctx eo w] by blast
  from stable beta
  have beta': "fst (NewEvictClient c w) = ClientV1beta1 \<longleftrightarrow>
      \<not> (\<exists>rl r. Discovery_resp c (calls w) ''v1'' = Inr rl \<and> find isEvictionEntry rl = Some r
         \<and> isStableEntry r)"
    by simp
  from stable beta' RunEvict_discovery_at_most_once [of w k c eo ctx] once none
  show ?thesis by (intro conjI)
qed

text \<open>
  C1 as stated fails. A discovery response that contains a stable eviction entry after a
  deprecated one selects the deprecated client, and a run whose pod listing fails makes no
  discovery call.
\<close>

theorem negotiation_counterexample:
  "advertisesStable [betaEntry, stableEntry]
   \<and> Discovery_resp twoEntryCluster [] ''v1'' = Inr [betaEntry, stableEntry]
   \<and> fst (NewEvictClient twoEntryCluster world0) = ClientV1beta1
   \<and> RunEvict sampleLib forbiddenCluster nodeTarget Background world0
     = (Some (Error ''pods is forbidden''),
        \<lparr>calls = [PodsList Background [] \<lparr>LabelSelector = [], FieldSelector = ''spec.nodeName=worker-1''\<rparr>],
         out = []\<rparr>)"
  by (simp add: advertisesStable_def isStableEntry_def isEvictionEntry_def betaEntry_def
      stableEntry_def twoEntryCluster_def forbiddenCluster_def sampleCluster_def world0_def
      NewEvictClient_def evictGroupVersion_def EvictionSubresource_def EvictionKind_def
      policyv1_SchemeGroupVersion_def RunEvict_def nodeTarget_def NewEvictOptions_def
      listOptionsFor_def sampleLib_def)

theorem negotiation_first_match_once_witness:
  "fst (NewEvictClient sampleCluster world0) = ClientV1
   \<and> calls (snd (RunEvict sampleLib sampleCluster threePods Background world0))
     = [ServerResourcesForGroupVersion ''v1'', evictCall ClientV1 (podNamed ''a''),
        evictCall ClientV1 (podNamed ''b''), evictCall ClientV1 (podNamed ''c'')]
   \<and> fst (podsForObject sampleLib forbiddenCluster Background (Object nodeTarget) world0)
     = Inl (Error ''pods is forbidden'')
   \<and> filter isDiscovery (drop (length (calls world0))
       (calls (snd (RunEvict sampleLib forbiddenCluster nodeTarget Background world0)))) = []"
proof -
  have f: "fst (podsForObject sampleLib forbiddenCluster Background (Object nodeTarget) world0)
     = Inl (Error ''pods is forbidden'')"
    by (simp add: forbiddenCluster_def sampleCluster_def nodeTarget_def NewEvictOptions_def Let_def)
  then have "\<exists>err. fst (podsForObject sampleLib forbiddenCluster Background (Object nodeTarget)
      world0) = Inl err"
    by blast
  with negotiation_first_match_once
    [of forbiddenCluster world0 sampleLib nodeTarget Background]
  have g: "filter isDiscovery (drop (length (calls world0))
       (calls (snd (RunEvict sampleLib forbiddenCluster nodeTarget Background world0)))) = []"
    by blast
  have d: "Discovery_resp sampleCluster (calls world0) ''v1'' = Inr [stableEntry]
           \<and> find isEvictionEntry [stableEntry] = Some stableEntry \<and> isStableEntry stableEntry"
    by (simp add: sampleCluster_def isStableEntry_def isEvictionEntry_def stableEntry_def)
  have cfg: "ToRESTConfig sampleCluster = None \<and> NewForConfig sampleCluster = None
     \<and> podsForObject sampleLib sampleCluster Background (Object threePods) world0
       = (Inr [podNamed ''a'', podNamed ''b'', podNamed ''c''], world0)"
    by (simp add: sampleCluster_def threePods_def NewEvictOptions_def)
  have run: "RunEvict sampleLib sampleCluster threePods Background world0
     = (None, \<lparr>calls = [ServerResourcesForGroupVersion ''v1'', evictCall ClientV1 (podNamed ''a''),
        evictCall ClientV1 (podNamed ''b''), evictCall ClientV1 (podNamed ''c'')],
        out = [''pod default/a evicted'' @ [CHR 0x0A], ''pod default/b evicted'' @ [CHR 0x0A],
               ''pod default/c evicted'' @ [CHR 0x0A]]\<rparr>)"
    by (simp add: RunEvict_def sampleCluster_def threePods_def NewEvictOptions_def world0_def
        NewEvictClient_def evictGroupVersion_def stableEntry_def EvictionSubresource_def
        EvictionKind_def policyv1_SchemeGroupVersion_def ClientV1_EvictPod_def podNamed_def
        evictedLine_def RunEvict_verb_def evictAnswer_def)
  from negotiation_first_match_once
    [of sampleCluster world0 sampleLib threePods Background
        "[podNamed ''a'', podNamed ''b'', podNamed ''c'']" world0] d cfg
  have "fst (NewEvictClient sampleCluster world0) = ClientV1" by blast
  with run f g show ?thesis by simp
qed

section \<open>Selector derivation\<close>

lemma selectorsForObject_one_selector:
  "selectorsForObject k obj = Inr (ns, labelsel, fieldsel) \<Longrightarrow>
   (labelsel = None \<and> fieldsel \<noteq> None) \<or> (labelsel \<noteq> None \<and> fieldsel = None)"
  by (cases obj) (auto split: sum.splits if_splits)

lemma listOptionsFor_label: "FieldSelector (listOptionsFor k labelsel None) = []"
  by (simp add: listOptionsFor_def Let_def split: option.splits)

lemma listOptionsFor_field: "LabelSelector (listOptionsFor k None fieldsel) = []"
  by (simp add: listOptionsFor_def Let_def split: option.splits)

lemma podsForObject_query:
  "calls (snd (podsForObject k api ctx obj w)) = calls w
   \<or> (\<exists>ns opt. calls (snd (podsForObject k api ctx obj w)) = calls w @ [PodsList ctx ns opt]
         \<and> (LabelSelector opt = [] \<or> FieldSelector opt = []))"
proof (cases "selectorsForObject k obj")
  case (Inl err)
  then show ?thesis by (cases obj) simp_all
next
  case (Inr res)
  obtain ns labelsel fieldsel where res: "res = (ns, labelsel, fieldsel)"
    by (cases res)
  with Inr selectorsForObject_one_selector [of k obj ns labelsel fieldsel]
  have "labelsel = None \<or> fieldsel = None" by auto
  then have "LabelSelector (listOptionsFor k labelsel fieldsel) = []
             \<or> FieldSelector (listOptionsFor k labelsel fieldsel) = []"
    using listOptionsFor_label [of k labelsel] listOptionsFor_field [of k fieldsel] by auto
  with Inr res show ?thesis
    by (cases obj) (simp_all add: Let_def)
qed

text \<open>
  C5. A derived selector pair never has both selectors, and a list query never carries both
  a label selector and a field selector. For a node the pair is the field selector on
  \<^verbatim>\<open>spec.nodeName\<close> with the node's name and no label selector, and the query goes to all
  namespaces (\<^verbatim>\<open>metav1.NamespaceAll\<close>, the empty string).
\<close>

theorem selectors_never_both:
  "(selectorsForObject k obj = Inr (ns, labelsel, fieldsel) \<longrightarrow> labelsel = None \<or> fieldsel = None)
   \<and> (calls (snd (podsForObject k api ctx obj w)) = calls w
       \<or> (\<exists>ns' opt. calls (snd (podsForObject k api ctx obj w)) = calls w @ [PodsList ctx ns' opt]
             \<and> (LabelSelector opt = [] \<or> FieldSelector opt = [])))
   \<and> selectorsForObject k (Node t)
       = Inr ([], None, Some (fields_SelectorFromSet k [(''spec.nodeName'', Name t)]))
   \<and> calls (snd (podsForObject k api ctx (Node t) w))
       = calls w @ [PodsList ctx []
           \<lparr>LabelSelector = [],
            FieldSelector = fields_String k (fields_SelectorFromSet k [(''spec.nodeName'', Name t)])\<rparr>]"
  using selectorsForObject_one_selector [of k obj ns labelsel fieldsel]
    podsForObject_query [of k api ctx obj w]
  by (auto simp: listOptionsFor_def Let_def)

theorem selectors_never_both_witness:
  "selectorsForObject sampleLib nginxDeployment = Inr (''web'', Some ''app=nginx'', None)
   \<and> (Some ''app=nginx'' = None \<or> (None :: string option) = None)
   \<and> calls (snd (podsForObject sampleLib sampleCluster Background nginxDeployment world0))
     = [PodsList Background ''web'' \<lparr>LabelSelector = ''app=nginx'', FieldSelector = []\<rparr>]"
proof -
  have d: "selectorsForObject sampleLib nginxDeployment = Inr (''web'', Some ''app=nginx'', None)"
    by (simp add: nginxDeployment_def sampleLib_def)
  have q: "calls (snd (podsForObject sampleLib sampleCluster Background nginxDeployment world0))
     = [PodsList Background ''web'' \<lparr>LabelSelector = ''app=nginx'', FieldSelector = []\<rparr>]"
    by (simp add: nginxDeployment_def sampleLib_def listOptionsFor_def Let_def world0_def)
  from selectors_never_both
    [of sampleLib nginxDeployment "''web''" "Some ''app=nginx''" None sampleCluster Background world0] d
  have "Some ''app=nginx'' = None \<or> (None :: string option) = None" by blast
  with d q show ?thesis by simp
qed

text \<open>
  C6. For an object of one of the seven controller kinds, the namespace of a derived query is
  the object's namespace; for a node it is all namespaces (the empty string); for every other
  object the derivation fails with the error \<^verbatim>\<open>selector for <type> not implemented\<close>.
  The derivation succeeds for a replication controller always, for a service when its
  selector map has an entry, and for the five kinds with a \<^verbatim>\<open>metav1.LabelSelector\<close> when
  the library converts the selector; when it does not, the error is
  \<^verbatim>\<open>invalid label selector: ...\<close>, not the one of an unsupported kind.
\<close>

theorem selectors_namespace:
  "(controllerMeta obj = Some t \<and> selectorsForObject k obj = Inr (ns, labelsel, fieldsel)
      \<longrightarrow> ns = Namespace t)
   \<and> (\<exists>fieldsel'. selectorsForObject k (Node t') = Inr ([], None, Some fieldsel'))
   \<and> (controllerMeta obj = None \<and> \<not> isNode obj
      \<longrightarrow> selectorsForObject k obj
          = Inl (Error (''selector for '' @ typeName obj @ '' not implemented'')))
   \<and> (\<forall>K \<in> {ReplicaSet, StatefulSet, DaemonSet, Deployment, Job}.
        (LabelSelectorAsSelector k sel = Inr l
           \<longrightarrow> selectorsForObject k (K tm sel) = Inr (Namespace tm, Some l, None))
        \<and> (LabelSelectorAsSelector k sel = Inl err
           \<longrightarrow> selectorsForObject k (K tm sel)
               = Inl (Error (''invalid label selector: '' @ Error_msg err))))
   \<and> selectorsForObject k (ReplicationController tm sm)
       = Inr (Namespace tm, Some (labels_SelectorFromSet k sm), None)
   \<and> (sm \<noteq> None \<and> sm \<noteq> Some []
      \<longrightarrow> selectorsForObject k (Service tm sm)
          = Inr (Namespace tm, Some (labels_SelectorFromSet k sm), None))"
proof -
  have a: "controllerMeta obj = Some t \<and> selectorsForObject k obj = Inr (ns, labelsel, fieldsel)
      \<longrightarrow> ns = Namespace t"
    by (cases obj) (auto split: sum.splits if_splits)
  have b: "\<exists>fieldsel'. selectorsForObject k (Node t') = Inr ([], None, Some fieldsel')"
    by simp
  have c: "controllerMeta obj = None \<and> \<not> isNode obj
      \<longrightarrow> selectorsForObject k obj
          = Inl (Error (''selector for '' @ typeName obj @ '' not implemented''))"
    by (cases obj) simp_all
  have d: "\<forall>K \<in> {ReplicaSet, StatefulSet, DaemonSet, Deployment, Job}.
        (LabelSelectorAsSelector k sel = Inr l
           \<longrightarrow> selectorsForObject k (K tm sel) = Inr (Namespace tm, Some l, None))
        \<and> (LabelSelectorAsSelector k sel = Inl err
           \<longrightarrow> selectorsForObject k (K tm sel)
               = Inl (Error (''invalid label selector: '' @ Error_msg err)))"
    by simp
  have e: "selectorsForObject k (ReplicationController tm sm)
       = Inr (Namespace tm, Some (labels_SelectorFromSet k sm), None)"
    by simp
  have f: "sm \<noteq> None \<and> sm \<noteq> Some []
      \<longrightarrow> selectorsForObject k (Service tm sm)
          = Inr (Namespace tm, Some (labels_SelectorFromSet k sm), None)"
    by (cases sm) auto
  from a b c d e f show ?thesis by (intro conjI)
qed

theorem selectors_namespace_witness:
  "controllerMeta nginxDeployment = Some \<lparr>Name = ''nginx'', Namespace = ''web''\<rparr>
   \<and> selectorsForObject sampleLib nginxDeployment = Inr (''web'', Some ''app=nginx'', None)
   \<and> selectorsForObject sampleLib
       (Service \<lparr>Name = ''db'', Namespace = ''web''\<rparr> (Some [(''app'', ''db'')]))
     = Inr (''web'', Some ''app=db'', None)
   \<and> selectorsForObject sampleLib (OtherObject ''*v1.ConfigMap'')
     = Inl (Error ''selector for *v1.ConfigMap not implemented'')"
proof -
  let ?t = "\<lparr>Name = ''nginx'', Namespace = ''web''\<rparr>"
  let ?sel = "Some \<lparr>MatchLabels = Some [(''app'', ''nginx'')], MatchExpressions = []\<rparr>"
  let ?svc = "\<lparr>Name = ''db'', Namespace = ''web''\<rparr>"
  have m: "controllerMeta nginxDeployment = Some ?t"
    by (simp add: nginxDeployment_def)
  have lib: "LabelSelectorAsSelector sampleLib ?sel = Inr ''app=nginx''"
    by (simp add: sampleLib_def)
  have dep: "Deployment \<in> {ReplicaSet, StatefulSet, DaemonSet, Deployment, Job}"
    by simp
  have sm: "Some [(''app'', ''db'')] \<noteq> (None :: gomap) \<and> Some [(''app'', ''db'')] \<noteq> (Some [] :: gomap)"
    by simp
  have other: "controllerMeta (OtherObject ''*v1.ConfigMap'') = None
     \<and> \<not> isNode (OtherObject ''*v1.ConfigMap'')"
    by simp
  from selectors_namespace
    [where k = sampleLib and sel = ?sel and l = "''app=nginx''" and tm = ?t] lib dep
  have d: "selectorsForObject sampleLib (Deployment ?t ?sel) = Inr (Namespace ?t, Some ''app=nginx'', None)"
    by blast
  from selectors_namespace
    [where k = sampleLib and obj = nginxDeployment and t = ?t and ns = "''web''"
       and labelsel = "Some ''app=nginx''" and fieldsel = None]
  have ns: "controllerMeta nginxDeployment = Some ?t
      \<and> selectorsForObject sampleLib nginxDeployment = Inr (''web'', Some ''app=nginx'', None)
      \<longrightarrow> ''web'' = Namespace ?t"
    by blast
  from selectors_namespace [where k = sampleLib and tm = ?svc and sm = "Some [(''app'', ''db'')]"] sm
  have svc: "selectorsForObject sampleLib (Service ?svc (Some [(''app'', ''db'')]))
     = Inr (Namespace ?svc, Some (labels_SelectorFromSet sampleLib (Some [(''app'', ''db'')])), None)"
    by blast
  from selectors_namespace [where k = sampleLib and obj = "OtherObject ''*v1.ConfigMap''"] other
  have oth: "selectorsForObject sampleLib (OtherObject ''*v1.ConfigMap'')
     = Inl (Error (''selector for '' @ typeName (OtherObject ''*v1.ConfigMap'') @ '' not implemented''))"
    by blast
  from m d svc oth show ?thesis
    by (simp add: nginxDeployment_def sampleLib_def)
qed

text \<open>
  C7. For a service whose selector map is nil or empty, the derivation fails with an error
  that names the service; \<open>podsForObject\<close> returns that error, wrapped, without querying the
  cluster; and \<open>RunEvict\<close> returns an error, makes no call and writes nothing.
\<close>

theorem service_without_selector:
  assumes "sel = None \<or> sel = Some []"
  shows "selectorsForObject k (Service t sel)
         = Inl (Error (''invalid service '' @ [CHR 0x27] @ Name t @ [CHR 0x27]
                       @ '': Service is defined without a selector''))
     \<and> podsForObject k api ctx (Service t sel) w
         = (Inl (Error (''cannot get the logs from *v1.Service: invalid service '' @ [CHR 0x27]
                        @ Name t @ [CHR 0x27] @ '': Service is defined without a selector'')), w)
     \<and> (Object eo = Service t sel
        \<longrightarrow> fst (RunEvict k api eo ctx w) \<noteq> None \<and> snd (RunEvict k api eo ctx w) = w)"
proof -
  from assms have s: "selectorsForObject k (Service t sel)
         = Inl (Error (''invalid service '' @ [CHR 0x27] @ Name t @ [CHR 0x27]
                       @ '': Service is defined without a selector''))"
    by auto
  then have p: "podsForObject k api ctx (Service t sel) w
         = (Inl (Error (''cannot get the logs from *v1.Service: invalid service '' @ [CHR 0x27]
                        @ Name t @ [CHR 0x27] @ '': Service is defined without a selector'')), w)"
    by simp
  have "fst (RunEvict k api eo ctx w) \<noteq> None \<and> snd (RunEvict k api eo ctx w) = w"
    if "Object eo = Service t sel"
    using that p by (simp add: RunEvict_def split: option.splits)
  with s p show ?thesis by blast
qed

theorem service_without_selector_witness:
  "podsForObject sampleLib sampleCluster Background headlessService world0
   = (Inl (Error (''cannot get the logs from *v1.Service: invalid service '' @ [CHR 0x27]
                  @ ''db'' @ [CHR 0x27] @ '': Service is defined without a selector'')), world0)"
proof -
  have "Some [] = (None :: gomap) \<or> Some [] = (Some [] :: gomap)" by simp
  from service_without_selector [OF this, of sampleLib "\<lparr>Name = ''db'', Namespace = ''web''\<rparr>"
      sampleCluster Background world0]
  show ?thesis by (simp add: headlessService_def)
qed

section \<open>The delete options computed by RunEvict\<close>

text \<open>
  The delete options of \<^verbatim>\<open>evict.go\<close>, lines 162 to 168: the grace period is set exactly
  when the flag is not negative, the dry-run mode \<^verbatim>\<open>All\<close> exactly when the flag is set.
\<close>

lemma RunEvict_opts_fields:
  "GracePeriodSeconds (RunEvict_opts eo)
     = (if 0 \<le> o_GracePeriodSeconds eo then Some (o_GracePeriodSeconds eo) else None)
   \<and> DryRun (RunEvict_opts eo) = (if o_DryRun eo then [''All''] else [])"
  by (simp add: RunEvict_opts_def Let_def)

section \<open>Context of the eviction requests\<close>

text \<open>The definitions that the evaluation of a whole run unfolds.\<close>

lemmas sample_defs =
  sampleCluster_def sampleLib_def world0_def podNamed_def NewEvictOptions_def stableEntry_def
  evictAnswer_def

lemmas program_defs =
  RunE_def Complete_def Complete_switch_def Complete_builder_def Complete_checks_def
  RunEvict_def RunEvict_opts_def RunEvict_verb_def evictedLine_def listOptionsFor_def
  NewEvictClient_def evictGroupVersion_def EvictionSubresource_def EvictionKind_def
  policyv1_SchemeGroupVersion_def ClientV1_EvictPod_def ClientV1beta1_EvictPod_def
  evictUsageErrStr_def evictUsageStr_def Let_def

lemma evictCall_carries:
  "isEvict (evictCall eviction p) \<and> evictContext (evictCall eviction p) = Some TODO"
  by (cases eviction) simp_all

text \<open>
  In every run, whatever the caller's context, each eviction call is made under
  \<^verbatim>\<open>context.TODO()\<close>.
\<close>

lemma RunEvict_eviction_calls:
  assumes "x \<in> set (drop (length (calls w)) (calls (snd (RunEvict k c eo ctx w))))"
      and "isEvict x"
  shows "evictContext x = Some TODO"
proof (cases "ToRESTConfig c = None \<and> NewForConfig c = None")
  case False
  then have "snd (RunEvict k c eo ctx w) = w"
    by (auto simp: RunEvict_def split: option.splits)
  with assms show ?thesis by simp
next
  case True
  obtain res w0 where pods: "podsForObject k c ctx (Object eo) w = (res, w0)"
    by (cases "podsForObject k c ctx (Object eo) w")
  have w0: "calls w0 = calls w \<or> (\<exists>ns opt. calls w0 = calls w @ [PodsList ctx ns opt])"
    using podsForObject_calls [of k c ctx "Object eo" w] pods by simp
  show ?thesis
  proof (cases res)
    case (Inl err)
    with True pods have "snd (RunEvict k c eo ctx w) = w0"
      by (simp add: RunEvict_def)
    with w0 assms show ?thesis by auto
  next
    case (Inr ps)
    with True pods RunEvict_calls [of c k ctx eo w ps w0] obtain n where
      "calls (snd (RunEvict k c eo ctx w))
       = calls w0 @ ServerResourcesForGroupVersion ''v1''
           # map (evictCall (fst (NewEvictClient c w0))) (take n ps)"
      by auto
    with w0 assms have "x \<in> set (map (evictCall (fst (NewEvictClient c w0))) (take n ps))"
      by auto
    then show ?thesis using evictCall_carries by auto
  qed
qed

text \<open>
  C9. \<^verbatim>\<open>kubectl evict -l app=nginx\<close> under a cancelled context, on a cluster that refuses
  every eviction made under a cancelled context: both eviction requests are made under
  \<^verbatim>\<open>context.TODO()\<close>, both succeed, and the run returns no error.
\<close>

theorem evictions_ignore_caller_context:
  "EvictV1_resp twoPodCluster [] (WithCancel True) ''default''
     \<lparr>ObjectMeta = \<lparr>Name = ''a'', Namespace = ''default''\<rparr>, DeleteOptions = None\<rparr>
     = Some (Error ''context canceled'')
   \<and> fst (RunE sampleLib twoPodCluster (NewEvictOptions ''app=nginx'' False (-1)) []
            (WithCancel True) world0)
     = Return None
   \<and> snd (snd (RunE sampleLib twoPodCluster (NewEvictOptions ''app=nginx'' False (-1)) []
                 (WithCancel True) world0))
     = \<lparr>calls =
          [BuilderDo \<lparr>NamespaceParam = ''default'', ResourceNames = None,
                      ResourceTypes = Some ''pods'', LabelSelectorParam = Some ''app=nginx''\<rparr>,
           ServerResourcesForGroupVersion ''v1'',
           EvictV1 TODO ''default''
             \<lparr>ObjectMeta = \<lparr>Name = ''a'', Namespace = ''default''\<rparr>, DeleteOptions = None\<rparr>,
           EvictV1 TODO ''default''
             \<lparr>ObjectMeta = \<lparr>Name = ''b'', Namespace = ''default''\<rparr>, DeleteOptions = None\<rparr>],
        out = [''pod default/a evicted'' @ [CHR 0x0A], ''pod default/b evicted'' @ [CHR 0x0A]]\<rparr>"
  by (simp add: twoPodCluster_def sample_defs program_defs)

section \<open>Empty selections\<close>

lemma RunEvict_no_pods:
  assumes "ToRESTConfig c = None" "NewForConfig c = None"
      and "podsForObject k c ctx (Object eo) w = (Inr [], w0)"
  shows "RunEvict k c eo ctx w
         = (None, w0\<lparr>calls := calls w0 @ [ServerResourcesForGroupVersion ''v1'']\<rparr>)"
proof -
  obtain eviction wN where client: "NewEvictClient c w0 = (eviction, wN)"
    by (cases "NewEvictClient c w0")
  then have "wN = w0\<lparr>calls := calls w0 @ [ServerResourcesForGroupVersion ''v1'']\<rparr>"
    using NewEvictClient_world [of c w0] by simp
  with assms client show ?thesis by (simp add: RunEvict_def Let_def)
qed

text \<open>
  C8, as amended. When a label-selector invocation fetches an empty pod list, the command
  fails with \<^verbatim>\<open>no resources found in <namespace> namespace\<close> after the fetch, and makes no
  further call. When the pods resolved in \<open>RunEvict\<close> (for a controller object or a node)
  are none, the run succeeds: it makes the discovery call, no eviction call, and writes
  nothing.
\<close>

theorem empty_selection:
  "(Selector eo \<noteq> [] \<and> ConfigNamespace c = Inr (namespace, namespaceOverwride)
      \<and> Infos c (calls w) (Complete_builder eo namespace) = Inr (PodList [] # infos)
    \<longrightarrow> RunE k c eo [] ctx w
        = (Return (Some (Error (''no resources found in '' @ namespace @ '' namespace''))),
           eo\<lparr>Object := PodList []\<rparr>,
           w\<lparr>calls := calls w @ [BuilderDo (Complete_builder eo namespace)]\<rparr>))
   \<and> (ToRESTConfig c = None \<and> NewForConfig c = None
      \<and> podsForObject k c ctx (Object eo) w = (Inr [], w0)
    \<longrightarrow> RunEvict k c eo ctx w
        = (None, w0\<lparr>calls := calls w0 @ [ServerResourcesForGroupVersion ''v1'']\<rparr>))"
proof -
  have "RunE k c eo [] ctx w
        = (Return (Some (Error (''no resources found in '' @ namespace @ '' namespace''))),
           eo\<lparr>Object := PodList []\<rparr>,
           w\<lparr>calls := calls w @ [BuilderDo (Complete_builder eo namespace)]\<rparr>)"
    if "Selector eo \<noteq> []" "ConfigNamespace c = Inr (namespace, namespaceOverwride)"
      "Infos c (calls w) (Complete_builder eo namespace) = Inr (PodList [] # infos)"
    using that
    by (simp add: RunE_def Complete_def Complete_switch_def Complete_checks_def Let_def)
  then show ?thesis using RunEvict_no_pods [of c k ctx eo w w0] by blast
qed

theorem empty_selection_counterexample:
  "fst (RunE sampleLib deploymentCluster (NewEvictOptions [] False (-1)) [''deployment/nginx'']
          Background world0)
     = Return None
   \<and> snd (snd (RunE sampleLib deploymentCluster (NewEvictOptions [] False (-1))
                 [''deployment/nginx''] Background world0))
     = \<lparr>calls =
          [BuilderDo \<lparr>NamespaceParam = ''web'', ResourceNames = Some (''pods'', ''deployment/nginx''),
                      ResourceTypes = None, LabelSelectorParam = None\<rparr>,
           PodsList Background ''web'' \<lparr>LabelSelector = ''app=nginx'', FieldSelector = []\<rparr>,
           ServerResourcesForGroupVersion ''v1''],
        out = []\<rparr>"
  by (simp add: deploymentCluster_def nginxDeployment_def sample_defs program_defs)

theorem empty_selection_witness:
  "RunE sampleLib noMatchCluster (NewEvictOptions ''app=nginx'' False (-1)) [] Background world0
   = (Return (Some (Error ''no resources found in default namespace'')),
      (NewEvictOptions ''app=nginx'' False (-1))\<lparr>Object := PodList []\<rparr>,
      \<lparr>calls = [BuilderDo \<lparr>NamespaceParam = ''default'', ResourceNames = None,
                           ResourceTypes = Some ''pods'', LabelSelectorParam = Some ''app=nginx''\<rparr>],
       out = []\<rparr>)"
proof -
  have h: "Selector (NewEvictOptions ''app=nginx'' False (-1)) \<noteq> []
     \<and> ConfigNamespace noMatchCluster = Inr (''default'', False)
     \<and> Infos noMatchCluster (calls world0)
         (Complete_builder (NewEvictOptions ''app=nginx'' False (-1)) ''default'')
       = Inr (PodList [] # [])"
    by (simp add: noMatchCluster_def sample_defs)
  from empty_selection [THEN conjunct1, rule_format, OF h, of sampleLib Background]
  show ?thesis
    by (simp add: Complete_builder_def sample_defs Let_def)
qed

section \<open>Arguments of the command\<close>

text \<open>
  C10. With no positional argument and no selector, or with more than one positional
  argument, the command fails with the usage message; with one positional argument and a
  selector it fails with \<^verbatim>\<open>only a selector (-l) or a resource name is allowed\<close>. In each
  case no call has been made. With exactly one of the two, the check of the arguments
  passes.
\<close>

theorem usage_errors:
  "((args = [] \<and> Selector eo = []) \<or> 2 \<le> length args
      \<longrightarrow> RunE k c eo args ctx w = (Return (Some (Error evictUsageErrStr)), eo, w))
   \<and> (Selector eo \<noteq> []
      \<longrightarrow> RunE k c eo [a] ctx w
          = (Return (Some (Error ''only a selector (-l) or a resource name is allowed'')),
             eo\<lparr>ResourceArg := a\<rparr>, w))
   \<and> (Selector eo \<noteq> [] \<longrightarrow> Complete_switch eo [] = (None, eo))
   \<and> (Selector eo = [] \<longrightarrow> Complete_switch eo [a] = (None, eo\<lparr>ResourceArg := a\<rparr>))"
proof -
  have two: "RunE k c eo args ctx w = (Return (Some (Error evictUsageErrStr)), eo, w)"
    if "2 \<le> length args"
  proof -
    from that obtain x y zs where "args = x # y # zs"
      by (cases args; cases "tl args") auto
    then show ?thesis by (simp add: RunE_def Complete_def Complete_switch_def)
  qed
  have none: "RunE k c eo [] ctx w = (Return (Some (Error evictUsageErrStr)), eo, w)"
    if "Selector eo = []"
    using that by (simp add: RunE_def Complete_def Complete_switch_def)
  have both: "RunE k c eo [a] ctx w
          = (Return (Some (Error ''only a selector (-l) or a resource name is allowed'')),
             eo\<lparr>ResourceArg := a\<rparr>, w)"
    if "Selector eo \<noteq> []"
    using that by (simp add: RunE_def Complete_def Complete_switch_def Let_def)
  have ok: "Selector eo \<noteq> [] \<longrightarrow> Complete_switch eo [] = (None, eo)"
    "Selector eo = [] \<longrightarrow> Complete_switch eo [a] = (None, eo\<lparr>ResourceArg := a\<rparr>)"
    by (simp_all add: Complete_switch_def Let_def)
  from two none both ok show ?thesis by blast
qed

theorem usage_errors_witness:
  "RunE sampleLib nginxCluster (NewEvictOptions [] False (-1)) [] Background world0
     = (Return (Some (Error evictUsageErrStr)), NewEvictOptions [] False (-1), world0)
   \<and> RunE sampleLib nginxCluster (NewEvictOptions [] False (-1)) [''nginx'', ''redis''] Background world0
     = (Return (Some (Error evictUsageErrStr)), NewEvictOptions [] False (-1), world0)
   \<and> RunE sampleLib nginxCluster (NewEvictOptions ''app=nginx'' False (-1)) [''nginx''] Background world0
     = (Return (Some (Error ''only a selector (-l) or a resource name is allowed'')),
        (NewEvictOptions ''app=nginx'' False (-1))\<lparr>ResourceArg := ''nginx''\<rparr>, world0)"
proof -
  have a: "([] :: string list) = [] \<and> Selector (NewEvictOptions [] False (-1)) = []"
    by (simp add: NewEvictOptions_def)
  have b: "2 \<le> length [''nginx'', ''redis'']" by simp
  have c: "Selector (NewEvictOptions ''app=nginx'' False (-1)) \<noteq> []"
    by (simp add: NewEvictOptions_def)
  from usage_errors [of "[]" "NewEvictOptions [] False (-1)" sampleLib nginxCluster Background world0] a
  have 1: "RunE sampleLib nginxCluster (NewEvictOptions [] False (-1)) [] Background world0
     = (Return (Some (Error evictUsageErrStr)), NewEvictOptions [] False (-1), world0)"
    by blast
  from usage_errors [of "[''nginx'', ''redis'']" "NewEvictOptions [] False (-1)" sampleLib
      nginxCluster Background world0] b
  have 2: "RunE sampleLib nginxCluster (NewEvictOptions [] False (-1)) [''nginx'', ''redis'']
      Background world0
     = (Return (Some (Error evictUsageErrStr)), NewEvictOptions [] False (-1), world0)"
    by blast
  from usage_errors [of _ "NewEvictOptions ''app=nginx'' False (-1)" sampleLib nginxCluster
      Background world0 "''nginx''"] c
  have 3: "RunE sampleLib nginxCluster (NewEvictOptions ''app=nginx'' False (-1)) [''nginx'']
      Background world0
     = (Return (Some (Error ''only a selector (-l) or a resource name is allowed'')),
        (NewEvictOptions ''app=nginx'' False (-1))\<lparr>ResourceArg := ''nginx''\<rparr>, world0)"
    by blast
  from 1 2 3 show ?thesis by blast
qed

end
